theory Spec2Isabelle
  imports Main
begin

section \<open>targ.hpp: descriptors\<close>

text \<open>
  The exception \<^verbatim>\<open>ParsingError\<close> carries its message. A call of \<^verbatim>\<open>parseArg\<close> either
  throws or returns the number of consumed tokens; the descriptor it ran on is mutated in
  place, so the model returns the descriptor as it is after the call.
\<close>

datatype ParsingError = ParsingError string

text \<open>
  The member \<^verbatim>\<open>T value\<close> of a descriptor. \<^verbatim>\<open>Option<T>::parseArg\<close> branches on \<^verbatim>\<open>T\<close> with
  \<^verbatim>\<open>if constexpr\<close>: \<^verbatim>\<open>bool\<close>, a \<^verbatim>\<open>std::vector\<close>, a \<^verbatim>\<open>std::optional\<close>, or any other type.
  The constructors follow these four branches.
\<close>

datatype 'a slot =
    T_bool bool
  | T_vector "'a list"
  | T_optional "'a option"
  | T_other 'a

text \<open>
  The two concrete subclasses of \<^verbatim>\<open>AbstractArgument\<close>. The member \<^verbatim>\<open>help\<close> is \<open>helpText\<close>
  and the member \<^verbatim>\<open>value\<close> is \<open>slot\<close> here (both words are Isabelle commands).
\<close>

datatype 'a AbstractArgument =
    PositionalArgument (helpText: string) (name: string) (slot: "'a slot")
  | Option (helpText: string) (shortName: char) (longName: string) (slot: "'a slot")

datatype 'a parsed = Threw ParsingError | Returned nat "'a AbstractArgument"

text \<open>
  The three tag structs. \<^verbatim>\<open>AbstractArgument::tag\<close> is declared \<^verbatim>\<open>const any_tag\<close>, and so are
  the members of the same name in both subclasses (initialised from a sliced
  \<^verbatim>\<open>positional_tag()\<close> or \<^verbatim>\<open>option_tag()\<close>). None of the structs has a virtual member, so
  \<^verbatim>\<open>typeid(arg->tag)\<close>, read through an \<^verbatim>\<open>AbstractArgument *\<close>, is the static type of the
  expression: \<^verbatim>\<open>any_tag\<close>, whatever the descriptor.
\<close>

datatype tag_type = any_tag | option_tag | positional_tag

definition typeid_tag :: "'a AbstractArgument \<Rightarrow> tag_type" where
  "typeid_tag arg = any_tag"

section \<open>targ.hpp: AbstractParser\<close>

record 'a AbstractParser =
  prgmName :: string
  args :: "'a AbstractArgument list"
  shortOptPrefix :: string
  longOptPrefix :: string

text \<open>
  \<^verbatim>\<open>AbstractParser\<close> has no constructor of its own: both prefix strings are
  default-constructed, hence empty, and being \<^verbatim>\<open>const\<close> they stay empty.
\<close>

definition AbstractParser_ctor :: "'a AbstractParser" where
  "AbstractParser_ctor =
     \<lparr>prgmName = '''', args = [], shortOptPrefix = '''', longOptPrefix = ''''\<rparr>"

definition AbstractParser_metaparser ::
  "('a, 'z) AbstractParser_scheme \<Rightarrow> string \<Rightarrow> bool \<times> ('a, 'z) AbstractParser_scheme" where
  "AbstractParser_metaparser parser arg = (False, parser)"

definition AbstractParser_shouldTest ::
  "('a, 'z) AbstractParser_scheme \<Rightarrow> 'a AbstractArgument \<Rightarrow> bool" where
  "AbstractParser_shouldTest parser arg = True"

definition addToParser ::
  "('a, 'z) AbstractParser_scheme \<Rightarrow> 'a AbstractArgument \<Rightarrow> ('a, 'z) AbstractParser_scheme" where
  "addToParser parser this = parser\<lparr>args := args parser @ [this]\<rparr>"

section \<open>targ.hpp: Option\<close>

text \<open>\<^verbatim>\<open>std::string::starts_with\<close>, and \<^verbatim>\<open>operator[]\<close>, which yields the terminating NUL
  at \<^verbatim>\<open>pos == size()\<close>. \<^verbatim>\<open>doesStrMatchOption\<close> reads \<^verbatim>\<open>str[n]\<close> only behind
  \<^verbatim>\<open>starts_with\<close> of a string of length \<open>n\<close>, so \<open>pos\<close> never exceeds the size there.\<close>

definition starts_with :: "string \<Rightarrow> string \<Rightarrow> bool" where
  "starts_with str x = (take (length x) str = x)"

definition string_at :: "string \<Rightarrow> nat \<Rightarrow> char" where
  "string_at str pos = (if pos < length str then str ! pos else CHR 0x00)"

text \<open>
  \<^verbatim>\<open>parser\<close> is an \<^verbatim>\<open>AbstractParser *\<close>: the prefixes read are the members of
  \<^verbatim>\<open>AbstractParser\<close>, also when the object is of a subclass that declares members of the
  same names. \<open>s\<close> and \<open>l\<close> are the members \<^verbatim>\<open>shortName\<close> and \<^verbatim>\<open>longName\<close> of the option.
\<close>

definition doesStrMatchOption ::
  "('a, 'z) AbstractParser_scheme \<Rightarrow> char \<Rightarrow> string \<Rightarrow> string \<Rightarrow> bool" where
  "doesStrMatchOption parser s l str =
     ((starts_with str (shortOptPrefix parser)
         \<and> string_at str (length (shortOptPrefix parser)) = s)
      \<or> (starts_with str (longOptPrefix parser)
         \<and> drop (length (longOptPrefix parser)) str = l))"

text \<open>
  The three constructors of \<^verbatim>\<open>Option\<close>. They leave \<^verbatim>\<open>value\<close> default-initialised (for
  \<^verbatim>\<open>bool\<close> that is an indeterminate value), and the constructor without a short name
  leaves \<^verbatim>\<open>shortName\<close> indeterminate: the model takes both as arguments \<open>v0\<close>, \<open>s0\<close>.
  Each constructor registers the new descriptor at the end of \<^verbatim>\<open>parser->args\<close>.
\<close>

definition Option_s ::
  "('a, 'z) AbstractParser_scheme \<Rightarrow> char \<Rightarrow> string \<Rightarrow> 'a slot \<Rightarrow> ('a, 'z) AbstractParser_scheme" where
  "Option_s parser s h v0 = addToParser parser (Option h s '''' v0)"

definition Option_l ::
  "('a, 'z) AbstractParser_scheme \<Rightarrow> string \<Rightarrow> string \<Rightarrow> char \<Rightarrow> 'a slot
     \<Rightarrow> ('a, 'z) AbstractParser_scheme" where
  "Option_l parser l h s0 v0 = addToParser parser (Option h s0 l v0)"

definition Option_sl ::
  "('a, 'z) AbstractParser_scheme \<Rightarrow> char \<Rightarrow> string \<Rightarrow> string \<Rightarrow> 'a slot
     \<Rightarrow> ('a, 'z) AbstractParser_scheme" where
  "Option_sl parser s l h v0 = addToParser parser (Option h s l v0)"

text \<open>\<^verbatim>\<open>operator=\<close> of both descriptor classes: it overwrites \<^verbatim>\<open>value\<close>.\<close>

fun assign :: "'a AbstractArgument \<Rightarrow> 'a slot \<Rightarrow> 'a AbstractArgument" where
  "assign (PositionalArgument h n _) v = PositionalArgument h n v"
| "assign (Option h s l _) v = Option h s l v"

text \<open>
  \<^verbatim>\<open>parseArg(argc, argv)\<close> is only called with \<^verbatim>\<open>argc >= 1\<close>: the window is given as its
  first token \<open>argv0\<close> and the tokens \<open>rest\<close> after it, so \<^verbatim>\<open>argc\<close> is \<open>Suc (length rest)\<close>
  and \<^verbatim>\<open>argv[1]\<close> is \<open>rest ! 0\<close>. \<open>static_cast\<close> is the conversion
  \<^verbatim>\<open>static_cast<T>(argv[1])\<close> of the scalar branch.
\<close>

fun parseArg ::
  "('a, 'z) AbstractParser_scheme \<Rightarrow> (string \<Rightarrow> 'a) \<Rightarrow> 'a AbstractArgument
     \<Rightarrow> string \<Rightarrow> string list \<Rightarrow> 'a parsed" where
  "parseArg parser static_cast (PositionalArgument h n v) argv0 rest =
     Returned 0 (PositionalArgument h n v)"
| "parseArg parser static_cast (Option h s l v) argv0 rest =
     (if doesStrMatchOption parser s l argv0 then
        (case v of
           T_bool b \<Rightarrow> Returned 1 (Option h s l (T_bool True))
         | T_vector xs \<Rightarrow> Returned 0 (Option h s l v)
         | T_optional x \<Rightarrow> Returned 0 (Option h s l v)
         | T_other x \<Rightarrow>
             if Suc (length rest) > 1
             then Returned 2 (Option h s l (T_other (static_cast (rest ! 0))))
             else Threw (ParsingError (''Option '' @ l @ '' expects one argument!'')))
      else Returned 0 (Option h s l v))"

section \<open>targ.hpp: parse\<close>

text \<open>
  The inner loop \<^verbatim>\<open>for (AbstractArgument *arg : parser.args)\<close>. It ends by a throw, by
  \<^verbatim>\<open>break\<close> after \<^verbatim>\<open>i += argsConsumed\<close>, or by running off the end of \<^verbatim>\<open>args\<close> with \<^verbatim>\<open>i\<close>
  unchanged: the result is the exception, or the amount added to \<^verbatim>\<open>i\<close> (0 in the last
  case) with the descriptors as the loop leaves them.
\<close>

fun for_args ::
  "('a AbstractArgument \<Rightarrow> bool) \<Rightarrow> ('a AbstractArgument \<Rightarrow> 'a parsed)
     \<Rightarrow> 'a AbstractArgument list \<Rightarrow> ParsingError + (nat \<times> 'a AbstractArgument list)" where
  "for_args shouldTest parseArg_at [] = Inr (0, [])"
| "for_args shouldTest parseArg_at (arg # others) =
     (if shouldTest arg then
        (case parseArg_at arg of
           Threw e \<Rightarrow> Inl e
         | Returned argsConsumed arg' \<Rightarrow>
             if argsConsumed \<noteq> 0 then Inr (argsConsumed, arg' # others)
             else (case for_args shouldTest parseArg_at others of
                     Inl e \<Rightarrow> Inl e
                   | Inr (n, others') \<Rightarrow> Inr (n, arg' # others')))
      else (case for_args shouldTest parseArg_at others of
              Inl e \<Rightarrow> Inl e
            | Inr (n, others') \<Rightarrow> Inr (n, arg # others')))"

text \<open>
  One pass through the body of the outer loop at index \<open>i < argc\<close>: the virtual
  \<^verbatim>\<open>metaparser\<close> and \<^verbatim>\<open>shouldTest\<close> of the parser class \<^verbatim>\<open>T\<close> are the arguments
  \<open>metaparser\<close> and \<open>shouldTest\<close>. The result is the exception, or the parser and the
  index after the pass.
\<close>

definition loop_body ::
  "(('a, 'z) AbstractParser_scheme \<Rightarrow> string \<Rightarrow> bool \<times> ('a, 'z) AbstractParser_scheme)
     \<Rightarrow> (('a, 'z) AbstractParser_scheme \<Rightarrow> 'a AbstractArgument \<Rightarrow> bool)
     \<Rightarrow> (string \<Rightarrow> 'a) \<Rightarrow> ('a, 'z) AbstractParser_scheme \<Rightarrow> string list \<Rightarrow> nat
     \<Rightarrow> ParsingError + (('a, 'z) AbstractParser_scheme \<times> nat)" where
  "loop_body metaparser shouldTest static_cast parser argv i =
     (case metaparser parser (argv ! i) of
        (True, parser') \<Rightarrow> Inr (parser', i + 1)
      | (False, parser') \<Rightarrow>
          (case for_args (shouldTest parser')
                  (\<lambda>arg. parseArg parser' static_cast arg (argv ! i) (drop (Suc i) argv))
                  (args parser') of
             Inl e \<Rightarrow> Inl e
           | Inr (argsConsumed, args') \<Rightarrow> Inr (parser'\<lparr>args := args'\<rparr>, i + argsConsumed)))"

text \<open>
  The outer loop \<^verbatim>\<open>for (int i=0; i < argc; )\<close>, with \<^verbatim>\<open>argc = length argv\<close>. It may run
  forever: \<open>None\<close> is "does not return", \<open>Some (Inl e)\<close> a propagated exception,
  \<open>Some (Inr parser)\<close> the returned parser.
\<close>

partial_function (option) parse_loop ::
  "(('a, 'z) AbstractParser_scheme \<Rightarrow> string \<Rightarrow> bool \<times> ('a, 'z) AbstractParser_scheme)
     \<Rightarrow> (('a, 'z) AbstractParser_scheme \<Rightarrow> 'a AbstractArgument \<Rightarrow> bool)
     \<Rightarrow> (string \<Rightarrow> 'a) \<Rightarrow> ('a, 'z) AbstractParser_scheme \<Rightarrow> string list \<Rightarrow> nat
     \<Rightarrow> (ParsingError + ('a, 'z) AbstractParser_scheme) option" where
  "parse_loop metaparser shouldTest static_cast parser argv i =
     (if i < length argv then
        (case loop_body metaparser shouldTest static_cast parser argv i of
           Inl e \<Rightarrow> Some (Inl e)
         | Inr (parser', i') \<Rightarrow> parse_loop metaparser shouldTest static_cast parser' argv i')
      else Some (Inr parser))"

declare parse_loop.simps [code]

text \<open>
  \<^verbatim>\<open>parse<T>(argc, argv)\<close>: \<open>parser\<close> is the default-constructed \<^verbatim>\<open>T\<close>. The program name is
  read from \<^verbatim>\<open>argv[0]\<close> without a test of \<^verbatim>\<open>argc\<close>; statements about \<open>prgmName\<close> are
  for \<open>argv \<noteq> []\<close>.
\<close>

definition parse ::
  "(('a, 'z) AbstractParser_scheme \<Rightarrow> string \<Rightarrow> bool \<times> ('a, 'z) AbstractParser_scheme)
     \<Rightarrow> (('a, 'z) AbstractParser_scheme \<Rightarrow> 'a AbstractArgument \<Rightarrow> bool)
     \<Rightarrow> (string \<Rightarrow> 'a) \<Rightarrow> ('a, 'z) AbstractParser_scheme \<Rightarrow> string list
     \<Rightarrow> (ParsingError + ('a, 'z) AbstractParser_scheme) option" where
  "parse metaparser shouldTest static_cast parser argv =
     parse_loop metaparser shouldTest static_cast (parser\<lparr>prgmName := argv ! 0\<rparr>) argv 0"

section \<open>unix.hpp: UnixParser\<close>

text \<open>
  \<^verbatim>\<open>UnixParser\<close> declares two members named like the prefixes of \<^verbatim>\<open>AbstractParser\<close>. They
  are new members of the subclass (here \<open>UnixParser_shortOptPrefix\<close>,
  \<open>UnixParser_longOptPrefix\<close>); the members of the base class keep their own values.
\<close>

record 'a UnixParser = "'a AbstractParser" +
  parseOptions :: bool
  UnixParser_shortOptPrefix :: string
  UnixParser_longOptPrefix :: string

definition UnixParser_ctor :: "'a UnixParser" where
  "UnixParser_ctor =
     \<lparr>prgmName = '''', args = [], shortOptPrefix = '''', longOptPrefix = '''',
      parseOptions = True, UnixParser_shortOptPrefix = ''-'', UnixParser_longOptPrefix = ''--''\<rparr>"

definition UnixParser_metaparser ::
  "('a, 'z) UnixParser_scheme \<Rightarrow> string \<Rightarrow> bool \<times> ('a, 'z) UnixParser_scheme" where
  "UnixParser_metaparser parser arg =
     (if arg = ''--'' then (True, parser\<lparr>parseOptions := False\<rparr>) else (False, parser))"

definition UnixParser_shouldTest ::
  "('a, 'z) UnixParser_scheme \<Rightarrow> 'a AbstractArgument \<Rightarrow> bool" where
  "UnixParser_shouldTest parser arg =
     (if \<not> parseOptions parser \<and> typeid_tag arg = positional_tag then False else True)"

section \<open>demo.cpp: SampleParser\<close>

text \<open>
  The sample parser: six options registered in declaration order, then the constructor
  body sets the default of \<^verbatim>\<open>outFilePath\<close> (the fifth descriptor, index 4). The two
  switches start with indeterminate values \<open>b1\<close>, \<open>b2\<close>, and \<^verbatim>\<open>arch\<close> with an
  indeterminate short name \<open>c\<close>.
\<close>

definition SampleParser_ctor :: "bool \<Rightarrow> bool \<Rightarrow> char \<Rightarrow> string UnixParser" where
  "SampleParser_ctor b1 b2 c =
     (let p = Option_s UnixParser_ctor CHR ''S'' ''Compile but do not assemble'' (T_bool b1);
          p = Option_sl p CHR ''v'' ''verbose'' ''Show verbose output'' (T_bool b2);
          p = Option_s p CHR ''x'' ''Set the language'' (T_other '''');
          p = Option_l p ''arch'' ''Set the target architecture'' c (T_other '''');
          p = Option_sl p CHR ''o'' ''output'' ''Set the output file'' (T_other '''');
          p = Option_sl p CHR ''m'' ''multiple'' ''multiple arguments'' (T_vector [])
      in p\<lparr>args := (args p)[4 := assign (args p ! 4) (T_other ''a.out'')]\<rparr>)"

text \<open>
  Two smaller parsers in the same style, used as test inputs: one declaring a switch and
  a scalar option, one declaring a scalar option before two switches.

  \<^verbatim>\<open>struct P : targ::UnixParser {
     targ::Switch assemblyOut{this, 'S', "..."};
     targ::Option<std::string> outFilePath{this, 'o', "output", "..."};
     P() { outFilePath = "a.out"; } };\<close>

  \<^verbatim>\<open>struct Q : targ::UnixParser {
     targ::Option<std::string> lang{this, 'x', "..."};
     targ::Switch assemblyOut{this, 'S', "..."};
     targ::Switch debug{this, 'g', "..."}; };\<close>
\<close>

definition SwitchScalarParser_ctor :: "bool \<Rightarrow> string UnixParser" where
  "SwitchScalarParser_ctor b1 =
     (let p = Option_s UnixParser_ctor CHR ''S'' ''Compile but do not assemble'' (T_bool b1);
          p = Option_sl p CHR ''o'' ''output'' ''Set the output file'' (T_other '''')
      in p\<lparr>args := (args p)[1 := assign (args p ! 1) (T_other ''a.out'')]\<rparr>)"

definition ScalarSwitchesParser_ctor :: "bool \<Rightarrow> bool \<Rightarrow> string UnixParser" where
  "ScalarSwitchesParser_ctor b1 b2 =
     (let p = Option_s UnixParser_ctor CHR ''x'' ''Set the language'' (T_other '''');
          p = Option_s p CHR ''S'' ''Compile but do not assemble'' (T_bool b1);
          p = Option_s p CHR ''g'' ''Debug information'' (T_bool b2)
      in p)"

section \<open>Auxiliary facts\<close>

subsection \<open>parseArg\<close>

lemma parseArg_zero: "parseArg P c a t r = Returned 0 a' \<Longrightarrow> a' = a"
  by (cases a) (auto split: if_splits slot.splits)

lemma parseArg_no_match:
  "\<not> doesStrMatchOption P s l t \<Longrightarrow>
     parseArg P c (Option h s l v) t r = Returned 0 (Option h s l v)"
  by simp

lemma parseArg_switch_set:
  "parseArg P c (Option h s l (T_bool True)) t r = Returned m a'
     \<Longrightarrow> a' = Option h s l (T_bool True)"
  by (auto split: if_splits)

subsection \<open>The inner loop\<close>

lemma for_args_length: "for_args test pa xs = Inr (n, ys) \<Longrightarrow> length ys = length xs"
  by (induction xs arbitrary: n ys) (auto split: if_splits parsed.splits sum.splits)

lemma for_args_nth:
  "for_args test pa xs = Inr (n, ys) \<Longrightarrow> k < length xs \<Longrightarrow>
     ys ! k = xs ! k \<or> (test (xs ! k) \<and> (\<exists>m. pa (xs ! k) = Returned m (ys ! k)))"
proof (induction xs arbitrary: n ys k)
  case Nil
  then show ?case by simp
next
  case (Cons a xs)
  show ?case
  proof (cases k)
    case 0
    with Cons.prems show ?thesis
      by (auto split: if_splits parsed.splits sum.splits)
  next
    case (Suc j)
    show ?thesis
    proof (cases "for_args test pa xs")
      case (Inl e)
      with Cons.prems Suc show ?thesis
        by (auto split: if_splits parsed.splits)
    next
      case (Inr r)
      obtain m zs where r: "r = (m, zs)" by (cases r)
      from Cons.prems Suc have j: "j < length xs" by simp
      have "zs ! j = xs ! j \<or> (test (xs ! j) \<and> (\<exists>m. pa (xs ! j) = Returned m (zs ! j)))"
        using Cons.IH[of m zs j] Inr r j by simp
      with Cons.prems Inr r Suc show ?thesis
        by (auto split: if_splits parsed.splits)
    qed
  qed
qed

lemma for_args_first:
  "\<forall>e\<in>set pre. \<not> test e \<or> pa e = Returned 0 e \<Longrightarrow> test d \<Longrightarrow> pa d = Returned n d'
     \<Longrightarrow> n \<noteq> 0 \<Longrightarrow> for_args test pa (pre @ d # post) = Inr (n, pre @ d' # post)"
  by (induction pre) auto

lemma for_args_all_decline:
  "\<forall>e\<in>set xs. \<not> test e \<or> pa e = Returned 0 e \<Longrightarrow> for_args test pa xs = Inr (0, xs)"
  by (induction xs) auto

subsection \<open>The outer loop\<close>

text \<open>A pass that changes neither the parser nor the index repeats forever.\<close>

lemma parse_loop_stuck:
  assumes "parse_loop mp st c p argv i = Some y"
  shows "i < length argv \<longrightarrow> loop_body mp st c p argv i = Inr (p, i) \<longrightarrow> False"
  by (rule parse_loop.raw_induct
        [where P = "\<lambda>mp st c p argv i y.
                      i < length argv \<longrightarrow> loop_body mp st c p argv i = Inr (p, i) \<longrightarrow> False",
         OF _ assms]) auto

text \<open>A property of the parser that every pass keeps holds of the returned parser.\<close>

lemma parse_loop_invariant:
  assumes run: "parse_loop mp st c p argv i = Some (Inr p')"
    and init: "I p"
    and step: "\<And>q j q' j'. I q \<Longrightarrow> j < length argv
                 \<Longrightarrow> loop_body mp st c q argv j = Inr (q', j') \<Longrightarrow> I q'"
  shows "I p'"
proof -
  have "mp' = mp \<and> st' = st \<and> c' = c \<and> argv' = argv \<and> I p \<longrightarrow> (\<forall>r. y = Inr r \<longrightarrow> I r)"
    if "parse_loop mp' st' c' p argv' i = Some y" for mp' st' c' argv' y
    by (rule parse_loop.raw_induct
          [where P = "\<lambda>mp' st' c' p argv' i y.
                        mp' = mp \<and> st' = st \<and> c' = c \<and> argv' = argv \<and> I p
                          \<longrightarrow> (\<forall>r. y = Inr r \<longrightarrow> I r)",
           OF _ that])
       (auto split: if_splits sum.splits dest: step)
  with run init show ?thesis by blast
qed

subsection \<open>Unfolding the parsers and the hooks\<close>

lemmas ctor_defs = SampleParser_ctor_def SwitchScalarParser_ctor_def
  ScalarSwitchesParser_ctor_def UnixParser_ctor_def Option_s_def Option_l_def Option_sl_def
  addToParser_def

lemmas match_defs = doesStrMatchOption_def starts_with_def string_at_def

lemmas unix_defs = UnixParser_metaparser_def UnixParser_shouldTest_def typeid_tag_def

lemma doesStrMatchOption_prefixes:
  "shortOptPrefix q = shortOptPrefix p \<Longrightarrow> longOptPrefix q = longOptPrefix p
     \<Longrightarrow> doesStrMatchOption q s l t = doesStrMatchOption p s l t"
  by (simp add: doesStrMatchOption_def)

lemma parseArg_prefixes:
  "shortOptPrefix q = shortOptPrefix p \<Longrightarrow> longOptPrefix q = longOptPrefix p
     \<Longrightarrow> parseArg q c a t r = parseArg p c a t r"
  by (cases a) (simp_all add: doesStrMatchOption_def)

text \<open>
  A pass in which \<^verbatim>\<open>metaparser\<close> declines and every tested descriptor returns 0 leaves the
  parser and the index as they were.
\<close>

lemma loop_body_no_progress:
  assumes mp: "metaparser parser (argv ! i) = (False, parser)"
    and decl: "\<forall>arg\<in>set (args parser). shouldTest parser arg \<longrightarrow>
         (\<exists>a'. parseArg parser static_cast arg (argv ! i) (drop (Suc i) argv) = Returned 0 a')"
  shows "loop_body metaparser shouldTest static_cast parser argv i = Inr (parser, i)"
proof -
  let ?pa = "\<lambda>arg. parseArg parser static_cast arg (argv ! i) (drop (Suc i) argv)"
  from decl have "\<forall>e\<in>set (args parser). \<not> shouldTest parser e \<or> ?pa e = Returned 0 e"
    by (metis parseArg_zero)
  then have "for_args (shouldTest parser) ?pa (args parser) = Inr (0, args parser)"
    by (rule for_args_all_decline)
  with mp show ?thesis by (simp add: loop_body_def)
qed

subsection \<open>What one pass and the whole loop do to one descriptor\<close>

text \<open>
  The facts below are for parser classes whose \<^verbatim>\<open>metaparser\<close> writes neither to the
  descriptors nor to the prefixes (the premise \<open>frame\<close>); \<^verbatim>\<open>AbstractParser\<close> and
  \<^verbatim>\<open>UnixParser\<close> are such classes.
\<close>

lemma loop_body_nth:
  assumes frame: "\<And>p t. args (snd (mp p t)) = args p
              \<and> shortOptPrefix (snd (mp p t)) = shortOptPrefix p
              \<and> longOptPrefix (snd (mp p t)) = longOptPrefix p"
    and body: "loop_body mp st c q argv j = Inr (q', j')"
    and k: "k < length (args q)"
  shows "length (args q') = length (args q)
         \<and> shortOptPrefix q' = shortOptPrefix q \<and> longOptPrefix q' = longOptPrefix q
         \<and> (args q' ! k = args q ! k
            \<or> (\<exists>m. parseArg q c (args q ! k) (argv ! j) (drop (Suc j) argv)
                      = Returned m (args q' ! k)))"
proof -
  obtain b q1 where mp: "mp q (argv ! j) = (b, q1)" by (cases "mp q (argv ! j)")
  from frame[of q "argv ! j"] mp
  have q1: "args q1 = args q" "shortOptPrefix q1 = shortOptPrefix q"
    "longOptPrefix q1 = longOptPrefix q" by simp_all
  show ?thesis
  proof (cases b)
    case True
    with body mp q1 show ?thesis by (simp add: loop_body_def)
  next
    case False
    let ?pa = "\<lambda>arg. parseArg q1 c arg (argv ! j) (drop (Suc j) argv)"
    from body mp False obtain n as where
      fa: "for_args (st q1) ?pa (args q1) = Inr (n, as)" and q': "q' = q1\<lparr>args := as\<rparr>"
      by (auto simp: loop_body_def split: sum.splits)
    have pa: "?pa a = parseArg q c a (argv ! j) (drop (Suc j) argv)" for a
      by (rule parseArg_prefixes) (simp_all add: q1)
    from for_args_length[OF fa] have len: "length as = length (args q)" by (simp add: q1)
    from for_args_nth[OF fa, of k] k
    have "as ! k = args q ! k
          \<or> (\<exists>m. parseArg q c (args q ! k) (argv ! j) (drop (Suc j) argv) = Returned m (as ! k))"
      by (auto simp: q1 pa)
    with len q' q1 show ?thesis by simp
  qed
qed

lemma parse_loop_keeps_unmatched:
  assumes frame: "\<And>p t. args (snd (mp p t)) = args p
              \<and> shortOptPrefix (snd (mp p t)) = shortOptPrefix p
              \<and> longOptPrefix (snd (mp p t)) = longOptPrefix p"
    and run: "parse_loop mp st c p argv i = Some (Inr p')"
    and k: "k < length (args p)"
    and d: "args p ! k = Option h s l v"
    and nomatch: "\<forall>t\<in>set argv. \<not> doesStrMatchOption p s l t"
  shows "args p' ! k = Option h s l v"
proof -
  let ?I = "\<lambda>q. length (args q) = length (args p) \<and> shortOptPrefix q = shortOptPrefix p
              \<and> longOptPrefix q = longOptPrefix p \<and> args q ! k = Option h s l v"
  have "?I p'"
  proof (rule parse_loop_invariant[where I = ?I, OF run])
    show "?I p" using d by simp
  next
    fix q j q' j'
    assume I: "?I q" and j: "j < length argv"
      and body: "loop_body mp st c q argv j = Inr (q', j')"
    from I k have kq: "k < length (args q)" by simp
    from I have dq: "args q ! k = Option h s l v" by simp
    from j nomatch have "\<not> doesStrMatchOption p s l (argv ! j)" by simp
    with I have "\<not> doesStrMatchOption q s l (argv ! j)"
      using doesStrMatchOption_prefixes[of q p s l "argv ! j"] by simp
    then have pa: "parseArg q c (Option h s l v) (argv ! j) (drop (Suc j) argv)
                 = Returned 0 (Option h s l v)"
      by (rule parseArg_no_match)
    note nth = loop_body_nth[OF frame body kq]
    from nth have "args q' ! k = args q ! k
            \<or> (\<exists>m. parseArg q c (args q ! k) (argv ! j) (drop (Suc j) argv)
                      = Returned m (args q' ! k))" by blast
    then have "args q' ! k = Option h s l v"
      unfolding dq pa by auto
    moreover from nth I have "length (args q') = length (args p)"
      "shortOptPrefix q' = shortOptPrefix p" "longOptPrefix q' = longOptPrefix p"
      by simp_all
    ultimately show "?I q'" by blast
  qed
  then show ?thesis by blast
qed

lemma parse_loop_keeps_true:
  assumes frame: "\<And>p t. args (snd (mp p t)) = args p
              \<and> shortOptPrefix (snd (mp p t)) = shortOptPrefix p
              \<and> longOptPrefix (snd (mp p t)) = longOptPrefix p"
    and run: "parse_loop mp st c p argv i = Some (Inr p')"
    and k: "k < length (args p)"
    and d: "args p ! k = Option h s l (T_bool True)"
  shows "args p' ! k = Option h s l (T_bool True)"
proof -
  let ?I = "\<lambda>q. length (args q) = length (args p) \<and> args q ! k = Option h s l (T_bool True)"
  have "?I p'"
  proof (rule parse_loop_invariant[where I = ?I, OF run])
    show "?I p" using d by simp
  next
    fix q j q' j'
    assume I: "?I q" and j: "j < length argv"
      and body: "loop_body mp st c q argv j = Inr (q', j')"
    from I k have kq: "k < length (args q)" by simp
    from I have dq: "args q ! k = Option h s l (T_bool True)" by simp
    note nth = loop_body_nth[OF frame body kq]
    from nth have "args q' ! k = args q ! k
            \<or> (\<exists>m. parseArg q c (args q ! k) (argv ! j) (drop (Suc j) argv)
                      = Returned m (args q' ! k))" by blast
    then have "args q' ! k = Option h s l (T_bool True)"
      unfolding dq using parseArg_switch_set by blast
    moreover from nth I have "length (args q') = length (args p)" by simp
    ultimately show "?I q'" by blast
  qed
  then show ?thesis by blast
qed

section \<open>Unrecognised tokens\<close>

text \<open>
  C1. The claim is that a token which \<^verbatim>\<open>metaparser\<close> does not consume and on which every
  eligible descriptor returns 0 ends the parse with an explicit error. The loop of
  \<^verbatim>\<open>parse\<close> has no branch for this case: the pass changes neither \<^verbatim>\<open>i\<close> nor the parser, and
  the loop repeats it forever. Stated for every parser class whose \<^verbatim>\<open>metaparser\<close> leaves
  the parser as it is when it declines (both \<^verbatim>\<open>AbstractParser\<close> and \<^verbatim>\<open>UnixParser\<close> do):
  from such a token on, \<^verbatim>\<open>parse\<close> does not return.
\<close>

theorem parse_loop_no_progress:
  assumes "i < length argv"
    and "metaparser parser (argv ! i) = (False, parser)"
    and "\<forall>arg\<in>set (args parser). shouldTest parser arg \<longrightarrow>
         (\<exists>a'. parseArg parser static_cast arg (argv ! i) (drop (Suc i) argv) = Returned 0 a')"
  shows "parse_loop metaparser shouldTest static_cast parser argv i = None"
proof (cases "parse_loop metaparser shouldTest static_cast parser argv i")
  case None
  then show ?thesis .
next
  case (Some y)
  from assms(2,3)
  have "loop_body metaparser shouldTest static_cast parser argv i = Inr (parser, i)"
    by (rule loop_body_no_progress)
  with parse_loop_stuck[OF Some] assms(1) show ?thesis by blast
qed

text \<open>
  The sample program started as \<^verbatim>\<open>./a.out -S -o main.s\<close>: the program name is the first
  token, no descriptor claims it, and \<^verbatim>\<open>parse\<close> never returns.
\<close>

theorem parse_loop_no_progress_witness:
  "parse UnixParser_metaparser UnixParser_shouldTest (\<lambda>s. s)
     (SampleParser_ctor False False CHR 0x00) [''./a.out'', ''-S'', ''-o'', ''main.s''] = None"
  using parse_loop_no_progress
    [of 0 "[''./a.out'', ''-S'', ''-o'', ''main.s'']" UnixParser_metaparser
        "(SampleParser_ctor False False CHR 0x00)\<lparr>prgmName := ''./a.out''\<rparr>"
        UnixParser_shouldTest "\<lambda>s. s"]
  by (simp add: parse_def ctor_defs match_defs unix_defs)

section \<open>Matching a token against an option\<close>

text \<open>
  C2. The claim is that an option recognises a token exactly when the token is the short
  prefix followed by the short name, or the long prefix followed by the long name. The
  long spelling is compared as a whole, but of the short spelling only the prefix and the
  one character after it are compared: a token that goes on after the short name is
  recognised as well. Here \<open>vx\<close> is recognised by the option \<open>v\<close>/\<open>verbose\<close> of a
  \<^verbatim>\<open>UnixParser\<close>, and is none of the spellings, neither with the prefixes of
  \<^verbatim>\<open>AbstractParser\<close> that the option reads nor with \<open>-\<close> and \<open>--\<close>.
\<close>

theorem doesStrMatchOption_counterexample:
  "doesStrMatchOption (UnixParser_ctor :: string UnixParser) CHR ''v'' ''verbose'' ''vx''
   \<and> ''vx'' \<noteq> shortOptPrefix (UnixParser_ctor :: string UnixParser) @ [CHR ''v'']
   \<and> ''vx'' \<noteq> longOptPrefix (UnixParser_ctor :: string UnixParser) @ ''verbose''
   \<and> ''vx'' \<noteq> ''-'' @ [CHR ''v'']
   \<and> ''vx'' \<noteq> ''--'' @ ''verbose''"
  by (simp add: ctor_defs match_defs)

text \<open>
  C2, amended. An option recognises a token exactly when the token starts with the short
  prefix of its \<^verbatim>\<open>AbstractParser\<close> and the character right after the prefix is the short
  name (the terminating NUL when the token ends there), or the token is the long prefix
  of its \<^verbatim>\<open>AbstractParser\<close> followed by the long name.
\<close>

theorem doesStrMatchOption_iff:
  "doesStrMatchOption parser s l str \<longleftrightarrow>
     (\<exists>tail. str = shortOptPrefix parser @ s # tail)
     \<or> (str = shortOptPrefix parser \<and> s = CHR 0x00)
     \<or> str = longOptPrefix parser @ l"
proof -
  let ?sp = "shortOptPrefix parser" and ?lp = "longOptPrefix parser"
  have short: "(starts_with str ?sp \<and> string_at str (length ?sp) = s) \<longleftrightarrow>
      (\<exists>tail. str = ?sp @ s # tail) \<or> (str = ?sp \<and> s = CHR 0x00)"
  proof
    assume a: "starts_with str ?sp \<and> string_at str (length ?sp) = s"
    then have t: "take (length ?sp) str = ?sp" by (simp add: starts_with_def)
    show "(\<exists>tail. str = ?sp @ s # tail) \<or> (str = ?sp \<and> s = CHR 0x00)"
    proof (cases "length ?sp < length str")
      case True
      then have "str = take (length ?sp) str @ str ! length ?sp # drop (Suc (length ?sp)) str"
        by (rule id_take_nth_drop)
      with a True t show ?thesis by (auto simp: string_at_def)
    next
      case False
      with t have "str = ?sp" by (metis take_all_iff not_less)
      with a show ?thesis by (simp add: string_at_def)
    qed
  next
    assume "(\<exists>tail. str = ?sp @ s # tail) \<or> (str = ?sp \<and> s = CHR 0x00)"
    then show "starts_with str ?sp \<and> string_at str (length ?sp) = s"
      by (auto simp: starts_with_def string_at_def)
  qed
  have long: "(starts_with str ?lp \<and> drop (length ?lp) str = l) \<longleftrightarrow> str = ?lp @ l"
    by (auto simp: starts_with_def) (metis append_take_drop_id)
  show ?thesis unfolding doesStrMatchOption_def short long by blast
qed

text \<open>
  The prefixes \<open>-\<close> and \<open>--\<close> that \<^verbatim>\<open>UnixParser\<close> declares are not the ones an option
  reads: the options of the sample parser do not recognise \<open>-v\<close> or \<open>--verbose\<close>.
\<close>

lemma UnixParser_prefixes_not_read:
  "\<not> doesStrMatchOption (SampleParser_ctor b1 b2 c) CHR ''v'' ''verbose'' ''-v''
   \<and> \<not> doesStrMatchOption (SampleParser_ctor b1 b2 c) CHR ''v'' ''verbose'' ''--verbose''
   \<and> doesStrMatchOption (SampleParser_ctor b1 b2 c) CHR ''v'' ''verbose'' ''verbose''"
  by (simp add: ctor_defs match_defs)

section \<open>The end-of-options marker\<close>

lemma UnixParser_shouldTest_always: "UnixParser_shouldTest parser arg"
  by (simp add: unix_defs)

text \<open>
  C4. The claim is that after \<^verbatim>\<open>metaparser\<close> has consumed \<open>--\<close>, \<^verbatim>\<open>shouldTest\<close> is false for
  every option. \<^verbatim>\<open>shouldTest\<close> compares \<^verbatim>\<open>typeid(arg->tag)\<close> with \<^verbatim>\<open>positional_tag\<close> under the
  comment "Don't parse options"; the comparison is false for every descriptor, so
  \<^verbatim>\<open>shouldTest\<close> stays true. On the input \<open>--\<close>, \<open>S\<close> the switch \<open>S\<close> is still tested after
  the marker, matches the second token and is set.
\<close>

theorem UnixParser_shouldTest_after_marker:
  "fst (UnixParser_metaparser (SwitchScalarParser_ctor False) ''--'')
   \<and> \<not> parseOptions (snd (UnixParser_metaparser (SwitchScalarParser_ctor False) ''--''))
   \<and> UnixParser_shouldTest (snd (UnixParser_metaparser (SwitchScalarParser_ctor False) ''--''))
        (Option ''Compile but do not assemble'' CHR ''S'' '''' (T_bool False))
   \<and> parse UnixParser_metaparser UnixParser_shouldTest (\<lambda>s. s)
        (SwitchScalarParser_ctor False) [''--'', ''S''] =
      Some (Inr ((SwitchScalarParser_ctor True)\<lparr>prgmName := ''--'', parseOptions := False\<rparr>))"
  by (simp add: parse_def parse_loop.simps loop_body_def ctor_defs match_defs unix_defs)

section \<open>Options of vector type\<close>

text \<open>
  C5. The claim is that a vector option whose flag matches consumes the flag and the
  tokens after it. The class comment says the same ("For any vector type, zero or more
  arguments are parsed after the option"), but the branch of \<^verbatim>\<open>parseArg\<close> for vectors is
  empty and falls through to \<^verbatim>\<open>return 0\<close>. On the window \<open>multiple\<close>, \<open>a\<close>, \<open>b\<close> the option
  \<^verbatim>\<open>multiple\<close> of the sample parser matches, returns 0 and stores nothing.
\<close>

theorem vector_option_declines:
  "doesStrMatchOption (SampleParser_ctor b1 b2 c) CHR ''m'' ''multiple'' ''multiple''
   \<and> args (SampleParser_ctor b1 b2 c) ! 5
       = Option ''multiple arguments'' CHR ''m'' ''multiple'' (T_vector [])
   \<and> parseArg (SampleParser_ctor b1 b2 c) (\<lambda>s. s) (args (SampleParser_ctor b1 b2 c) ! 5)
        ''multiple'' [''a'', ''b'']
       = Returned 0 (Option ''multiple arguments'' CHR ''m'' ''multiple'' (T_vector []))"
  by (simp add: ctor_defs match_defs)

section \<open>Positional arguments\<close>

text \<open>
  C6. The claim is that a positional argument that is offered a token always claims it.
  \<^verbatim>\<open>PositionalArgument::parseArg\<close> is \<^verbatim>\<open>return 0\<close>: offered the token \<open>main.c\<close>, it
  returns 0.
\<close>

theorem positional_counterexample:
  "parseArg (UnixParser_ctor :: string UnixParser) (\<lambda>s. s)
      (PositionalArgument ''input file'' ''file'' (T_other '''')) ''main.c'' []
     = Returned 0 (PositionalArgument ''input file'' ''file'' (T_other ''''))"
  by simp

text \<open>
  C6, amended. Whenever the loop offers a positional argument the current token, its
  \<^verbatim>\<open>parseArg\<close> returns 0 and leaves the descriptor as it is, and the loop goes on to the
  descriptors registered after it.
\<close>

theorem positional_declines:
  "parseArg parser static_cast (PositionalArgument h n v) argv0 rest
       = Returned 0 (PositionalArgument h n v)
   \<and> for_args shouldTest (\<lambda>arg. parseArg parser static_cast arg argv0 rest)
         (PositionalArgument h n v # others)
       = (case for_args shouldTest (\<lambda>arg. parseArg parser static_cast arg argv0 rest) others of
            Inl e \<Rightarrow> Inl e
          | Inr (k, others') \<Rightarrow> Inr (k, PositionalArgument h n v # others'))"
  by simp

section \<open>Scalar options\<close>

text \<open>
  C3. For an option of scalar type whose flag matches the first token of the window:
  with a token after the flag, \<^verbatim>\<open>parseArg\<close> stores that token, converted, and returns 2;
  with the flag as the last token it throws \<^verbatim>\<open>ParsingError\<close>. And when no token of the
  input matches the flag, the descriptor (registered at index \<open>k\<close>) has its default when
  \<^verbatim>\<open>parse\<close> returns. The last part is for every parser class whose \<^verbatim>\<open>metaparser\<close> writes
  neither to the descriptors nor to the prefixes.
\<close>

theorem scalar_option:
  "(doesStrMatchOption parser s l flag \<longrightarrow>
      parseArg parser static_cast (Option h s l (T_other x)) flag (nxt # rest)
        = Returned 2 (Option h s l (T_other (static_cast nxt)))
      \<and> parseArg parser static_cast (Option h s l (T_other x)) flag []
        = Threw (ParsingError (''Option '' @ l @ '' expects one argument!'')))
   \<and> ((\<forall>p t. args (snd (metaparser p t)) = args p
              \<and> shortOptPrefix (snd (metaparser p t)) = shortOptPrefix p
              \<and> longOptPrefix (snd (metaparser p t)) = longOptPrefix p)
        \<and> k < length (args parser) \<and> args parser ! k = Option h s l (T_other x)
        \<and> (\<forall>t\<in>set argv. \<not> doesStrMatchOption parser s l t)
        \<and> parse metaparser shouldTest static_cast parser argv = Some (Inr parser')
       \<longrightarrow> args parser' ! k = Option h s l (T_other x))"
proof (intro conjI impI)
  assume "doesStrMatchOption parser s l flag"
  then show "parseArg parser static_cast (Option h s l (T_other x)) flag (nxt # rest)
        = Returned 2 (Option h s l (T_other (static_cast nxt)))"
    and "parseArg parser static_cast (Option h s l (T_other x)) flag []
        = Threw (ParsingError (''Option '' @ l @ '' expects one argument!''))"
    by simp_all
next
  let ?p = "parser\<lparr>prgmName := argv ! 0\<rparr>"
  assume a: "(\<forall>p t. args (snd (metaparser p t)) = args p
              \<and> shortOptPrefix (snd (metaparser p t)) = shortOptPrefix p
              \<and> longOptPrefix (snd (metaparser p t)) = longOptPrefix p)
        \<and> k < length (args parser) \<and> args parser ! k = Option h s l (T_other x)
        \<and> (\<forall>t\<in>set argv. \<not> doesStrMatchOption parser s l t)
        \<and> parse metaparser shouldTest static_cast parser argv = Some (Inr parser')"
  then have frame: "\<And>p t. args (snd (metaparser p t)) = args p
              \<and> shortOptPrefix (snd (metaparser p t)) = shortOptPrefix p
              \<and> longOptPrefix (snd (metaparser p t)) = longOptPrefix p" by blast
  from a have run: "parse_loop metaparser shouldTest static_cast ?p argv 0 = Some (Inr parser')"
    by (simp add: parse_def)
  from a have k: "k < length (args ?p)" and d: "args ?p ! k = Option h s l (T_other x)"
    by simp_all
  from a have nm: "\<forall>t\<in>set argv. \<not> doesStrMatchOption ?p s l t"
    by (simp add: doesStrMatchOption_def)
  from parse_loop_keeps_unmatched[of metaparser, OF frame run k d nm]
  show "args parser' ! k = Option h s l (T_other x)" .
qed

text \<open>
  The option \<open>o\<close>/\<open>output\<close> with default \<open>a.out\<close>: the window \<open>output\<close>, \<open>out.bin\<close> stores
  \<open>out.bin\<close>; the window \<open>output\<close> alone throws; the input \<open>S\<close>, \<open>--\<close>, \<open>S\<close> holds no
  matching token, \<^verbatim>\<open>parse\<close> returns, and the default is still there.
\<close>

theorem scalar_option_witness:
  "doesStrMatchOption (SwitchScalarParser_ctor False) CHR ''o'' ''output'' ''output''
   \<and> parseArg (SwitchScalarParser_ctor False) (\<lambda>s. s)
        (Option ''Set the output file'' CHR ''o'' ''output'' (T_other ''a.out''))
        ''output'' [''out.bin'']
      = Returned 2 (Option ''Set the output file'' CHR ''o'' ''output'' (T_other ''out.bin''))
   \<and> parseArg (SwitchScalarParser_ctor False) (\<lambda>s. s)
        (Option ''Set the output file'' CHR ''o'' ''output'' (T_other ''a.out''))
        ''output'' []
      = Threw (ParsingError ''Option output expects one argument!'')
   \<and> \<not> doesStrMatchOption (SwitchScalarParser_ctor False) CHR ''o'' ''output'' ''S''
   \<and> \<not> doesStrMatchOption (SwitchScalarParser_ctor False) CHR ''o'' ''output'' ''--''
   \<and> parse UnixParser_metaparser UnixParser_shouldTest (\<lambda>s. s)
        (SwitchScalarParser_ctor False) [''S'', ''--'', ''S'']
      = Some (Inr ((SwitchScalarParser_ctor True)\<lparr>prgmName := ''S'', parseOptions := False\<rparr>))
   \<and> args ((SwitchScalarParser_ctor True)\<lparr>prgmName := ''S'', parseOptions := False\<rparr>) ! 1
      = Option ''Set the output file'' CHR ''o'' ''output'' (T_other ''a.out'')"
  using scalar_option
    [where parser = "SwitchScalarParser_ctor False" and s = "CHR ''o''" and l = "''output''"
       and flag = "''output''" and static_cast = "\<lambda>s. s"
       and h = "''Set the output file''" and x = "''a.out''" and nxt = "''out.bin''"
       and rest = "[]" and metaparser = UnixParser_metaparser and k = 1
       and argv = "[''S'', ''--'', ''S'']" and shouldTest = UnixParser_shouldTest
       and parser' = "(SwitchScalarParser_ctor True)\<lparr>prgmName := ''S'', parseOptions := False\<rparr>"]
  by (simp add: parse_def parse_loop.simps loop_body_def ctor_defs match_defs unix_defs)

section \<open>Precedence by declaration order\<close>

text \<open>
  A descriptor that is tested and returns a nonzero count, after descriptors that are all
  skipped or return 0, ends the inner loop: its update and its count are the result.
\<close>

lemma loop_body_first_match:
  assumes mp: "metaparser parser (argv ! i) = (False, parser)"
    and k: "k < length (args parser)"
    and test: "shouldTest parser (args parser ! k)"
    and earlier: "\<forall>j<k. \<not> shouldTest parser (args parser ! j)
        \<or> parseArg parser static_cast (args parser ! j) (argv ! i) (drop (Suc i) argv)
            = Returned 0 (args parser ! j)"
    and pa: "parseArg parser static_cast (args parser ! k) (argv ! i) (drop (Suc i) argv)
               = Returned n d'"
    and n: "n \<noteq> 0"
  shows "loop_body metaparser shouldTest static_cast parser argv i
           = Inr (parser\<lparr>args := (args parser)[k := d']\<rparr>, i + n)"
proof -
  let ?xs = "args parser"
  let ?pa = "\<lambda>arg. parseArg parser static_cast arg (argv ! i) (drop (Suc i) argv)"
  have split: "?xs = take k ?xs @ ?xs ! k # drop (Suc k) ?xs"
    using k by (rule id_take_nth_drop)
  have pre: "\<forall>e\<in>set (take k ?xs). \<not> shouldTest parser e \<or> ?pa e = Returned 0 e"
  proof
    fix e assume "e \<in> set (take k ?xs)"
    then obtain j where "j < length (take k ?xs)" and "e = take k ?xs ! j"
      by (auto simp: in_set_conv_nth)
    with k have "j < k" and "e = ?xs ! j" by simp_all
    with earlier show "\<not> shouldTest parser e \<or> ?pa e = Returned 0 e" by blast
  qed
  have "for_args (shouldTest parser) ?pa (take k ?xs @ ?xs ! k # drop (Suc k) ?xs)
          = Inr (n, take k ?xs @ d' # drop (Suc k) ?xs)"
    using pre test pa n by (rule for_args_first)
  also have "take k ?xs @ d' # drop (Suc k) ?xs = ?xs[k := d']"
    using k by (simp add: upd_conv_take_nth_drop)
  finally have "for_args (shouldTest parser) ?pa ?xs = Inr (n, ?xs[k := d'])"
    using split by simp
  with mp show ?thesis by (simp add: loop_body_def)
qed

text \<open>
  C7. The claim is that when two or more eligible descriptors would return a nonzero
  count for a window, the result of the earliest of them is applied. A descriptor
  registered before them that recognises the token and throws ends the parse first. Here a
  scalar option is declared before two switches, all without long name; the empty token
  spells the (empty) long name of each. On the input \<open>S\<close>, \<open>\<close> the pass at index 1 gives
  the scalar option the empty token as the last one: both switches would return 1, but
  the scalar option throws and no result is applied.
\<close>

theorem first_match_counterexample:
  "UnixParser_shouldTest (ScalarSwitchesParser_ctor False False)
       (Option ''Compile but do not assemble'' CHR ''S'' '''' (T_bool False))
   \<and> parseArg (ScalarSwitchesParser_ctor False False) (\<lambda>s. s)
        (Option ''Compile but do not assemble'' CHR ''S'' '''' (T_bool False)) '''' []
      = Returned 1 (Option ''Compile but do not assemble'' CHR ''S'' '''' (T_bool True))
   \<and> UnixParser_shouldTest (ScalarSwitchesParser_ctor False False)
       (Option ''Debug information'' CHR ''g'' '''' (T_bool False))
   \<and> parseArg (ScalarSwitchesParser_ctor False False) (\<lambda>s. s)
        (Option ''Debug information'' CHR ''g'' '''' (T_bool False)) '''' []
      = Returned 1 (Option ''Debug information'' CHR ''g'' '''' (T_bool True))
   \<and> loop_body UnixParser_metaparser UnixParser_shouldTest (\<lambda>s. s)
        (ScalarSwitchesParser_ctor False False) [''S'', ''''] 1
      = Inl (ParsingError ''Option  expects one argument!'')
   \<and> parse UnixParser_metaparser UnixParser_shouldTest (\<lambda>s. s)
        (ScalarSwitchesParser_ctor False False) [''S'', '''']
      = Some (Inl (ParsingError ''Option  expects one argument!''))"
  by (simp add: parse_def parse_loop.simps loop_body_def ctor_defs match_defs unix_defs)

text \<open>
  C7, amended. At every token position that \<^verbatim>\<open>metaparser\<close> does not consume: if an
  eligible descriptor \<open>d\<close> returns a nonzero count for the window, and every descriptor
  registered before it is skipped by \<^verbatim>\<open>shouldTest\<close> or returns 0 (so none of them throws),
  then the result of \<open>d\<close> is applied: its update is stored and \<^verbatim>\<open>i\<close> advances by its count.
  No descriptor registered after \<open>d\<close> is invoked for that window: the descriptors \<open>post\<close>
  are arbitrary, they may return a nonzero count or throw, and they are left as they are.
\<close>

theorem first_match_wins:
  assumes "metaparser parser (argv ! i) = (False, parser')"
    and "args parser' = pre @ d # post"
    and "\<forall>e\<in>set pre. \<not> shouldTest parser' e
           \<or> parseArg parser' static_cast e (argv ! i) (drop (Suc i) argv) = Returned 0 e"
    and "shouldTest parser' d"
    and "parseArg parser' static_cast d (argv ! i) (drop (Suc i) argv) = Returned n d'"
    and "n \<noteq> 0"
  shows "loop_body metaparser shouldTest static_cast parser argv i
           = Inr (parser'\<lparr>args := pre @ d' # post\<rparr>, i + n)"
  using assms(1,2)
    for_args_first[of pre "shouldTest parser'"
      "\<lambda>arg. parseArg parser' static_cast arg (argv ! i) (drop (Suc i) argv)" d n d' post,
      OF assms(3,4,5,6)]
  by (simp add: loop_body_def)

text \<open>
  The sample parser on the input \<open>verbose\<close>, \<open>x\<close>: after the switch \<open>S\<close>, which returns 0,
  the switch \<open>v\<close>/\<open>verbose\<close> returns 1 and is applied. The option \<^verbatim>\<open>arch\<close> registered after
  it, whose indeterminate short name is taken to be \<open>v\<close> here, would return 2 for the same
  window and is not asked.
\<close>

theorem first_match_wins_witness:
  "parseArg (SampleParser_ctor False False CHR ''v'') (\<lambda>s. s)
       (Option ''Set the target architecture'' CHR ''v'' ''arch'' (T_other '''')) ''verbose'' [''x'']
     = Returned 2 (Option ''Set the target architecture'' CHR ''v'' ''arch'' (T_other ''x''))
   \<and> loop_body UnixParser_metaparser UnixParser_shouldTest (\<lambda>s. s)
       (SampleParser_ctor False False CHR ''v'') [''verbose'', ''x''] 0
     = Inr ((SampleParser_ctor False False CHR ''v'')
          \<lparr>args := [Option ''Compile but do not assemble'' CHR ''S'' '''' (T_bool False)]
             @ Option ''Show verbose output'' CHR ''v'' ''verbose'' (T_bool True)
             # [Option ''Set the language'' CHR ''x'' '''' (T_other ''''),
                Option ''Set the target architecture'' CHR ''v'' ''arch'' (T_other ''''),
                Option ''Set the output file'' CHR ''o'' ''output'' (T_other ''a.out''),
                Option ''multiple arguments'' CHR ''m'' ''multiple'' (T_vector [])]\<rparr>, 0 + 1)"
  using first_match_wins
    [where metaparser = UnixParser_metaparser
       and parser = "SampleParser_ctor False False CHR ''v''"
       and parser' = "SampleParser_ctor False False CHR ''v''"
       and argv = "[''verbose'', ''x'']" and i = 0
       and pre = "[Option ''Compile but do not assemble'' CHR ''S'' '''' (T_bool False)]"
       and d = "Option ''Show verbose output'' CHR ''v'' ''verbose'' (T_bool False)"
       and post = "[Option ''Set the language'' CHR ''x'' '''' (T_other ''''),
                Option ''Set the target architecture'' CHR ''v'' ''arch'' (T_other ''''),
                Option ''Set the output file'' CHR ''o'' ''output'' (T_other ''a.out''),
                Option ''multiple arguments'' CHR ''m'' ''multiple'' (T_vector [])]"
       and shouldTest = UnixParser_shouldTest and static_cast = "\<lambda>s. s" and n = 1
       and d' = "Option ''Show verbose output'' CHR ''v'' ''verbose'' (T_bool True)"]
  by (simp add: ctor_defs match_defs unix_defs)

section \<open>Tokens consumed by metaparser\<close>

text \<open>
  C8. When \<^verbatim>\<open>metaparser\<close> returns true for the token at index \<open>i\<close>, the pass ends there:
  the index advances by one and the parser is as \<^verbatim>\<open>metaparser\<close> left it. The result does
  not depend on \<^verbatim>\<open>shouldTest\<close>, on the conversion or on the descriptors, none of which is
  consulted. For a \<^verbatim>\<open>UnixParser\<close> what \<^verbatim>\<open>metaparser\<close> leaves is the parser with
  \<^verbatim>\<open>parseOptions\<close> cleared and the same descriptors.
\<close>

theorem metaparser_consumes:
  assumes "i < length argv" and "fst (metaparser parser (argv ! i))"
  shows "loop_body metaparser shouldTest static_cast parser argv i
           = Inr (snd (metaparser parser (argv ! i)), i + 1)
         \<and> parse_loop metaparser shouldTest static_cast parser argv i
           = parse_loop metaparser shouldTest static_cast
               (snd (metaparser parser (argv ! i))) argv (i + 1)
         \<and> (\<forall>uparser. fst (UnixParser_metaparser uparser (argv ! i)) \<longrightarrow>
               snd (UnixParser_metaparser uparser (argv ! i)) = uparser\<lparr>parseOptions := False\<rparr>
               \<and> args (snd (UnixParser_metaparser uparser (argv ! i))) = args uparser)"
proof -
  obtain b q where mp: "metaparser parser (argv ! i) = (b, q)"
    by (cases "metaparser parser (argv ! i)")
  with assms(2) have b by simp
  with mp have body: "loop_body metaparser shouldTest static_cast parser argv i = Inr (q, i + 1)"
    by (simp add: loop_body_def)
  have "parse_loop metaparser shouldTest static_cast parser argv i
           = parse_loop metaparser shouldTest static_cast q argv (i + 1)"
    using assms(1) body by (subst parse_loop.simps) simp
  with body mp show ?thesis by (simp add: UnixParser_metaparser_def)
qed

text \<open>
  The input \<open>S\<close>, \<open>--\<close>, \<open>o\<close> at index 1: the marker is consumed, and the loop goes on at
  index 2 with \<^verbatim>\<open>parseOptions\<close> cleared and the descriptors as they were.
\<close>

theorem metaparser_consumes_witness:
  "fst (UnixParser_metaparser (SwitchScalarParser_ctor False) ([''S'', ''--'', ''o''] ! 1))
   \<and> loop_body UnixParser_metaparser UnixParser_shouldTest (\<lambda>s. s)
        (SwitchScalarParser_ctor False) [''S'', ''--'', ''o''] 1
      = Inr ((SwitchScalarParser_ctor False)\<lparr>parseOptions := False\<rparr>, 1 + 1)
   \<and> parse_loop UnixParser_metaparser UnixParser_shouldTest (\<lambda>s. s)
        (SwitchScalarParser_ctor False) [''S'', ''--'', ''o''] 1
      = parse_loop UnixParser_metaparser UnixParser_shouldTest (\<lambda>s. s)
        ((SwitchScalarParser_ctor False)\<lparr>parseOptions := False\<rparr>) [''S'', ''--'', ''o''] (1 + 1)
   \<and> args ((SwitchScalarParser_ctor False)\<lparr>parseOptions := False\<rparr>)
      = args (SwitchScalarParser_ctor False)"
  using metaparser_consumes
    [where i = 1 and argv = "[''S'', ''--'', ''o'']" and metaparser = UnixParser_metaparser
       and parser = "SwitchScalarParser_ctor False" and shouldTest = UnixParser_shouldTest
       and static_cast = "\<lambda>s. s"]
  by (simp add: UnixParser_metaparser_def)

section \<open>Switches\<close>

text \<open>
  C9. The claim is that a switch is true after parsing whenever a matching token occurs
  anywhere in the input. A matching token that follows a scalar option is taken as that
  option's value and never offered to the switch. The parser declares the switch \<open>S\<close> and
  the scalar option \<open>o\<close>/\<open>output\<close>; on the input \<open>o\<close>, \<open>S\<close> the token \<open>S\<close> matches the
  switch, \<^verbatim>\<open>parse\<close> returns, the option holds \<open>S\<close> and the switch is still false.
\<close>

theorem switch_option_counterexample:
  "''S'' \<in> set [''o'', ''S'']
   \<and> doesStrMatchOption (SwitchScalarParser_ctor False) CHR ''S'' '''' ''S''
   \<and> args (SwitchScalarParser_ctor False) ! 0
      = Option ''Compile but do not assemble'' CHR ''S'' '''' (T_bool False)
   \<and> parse UnixParser_metaparser UnixParser_shouldTest (\<lambda>s. s)
        (SwitchScalarParser_ctor False) [''o'', ''S'']
      = Some (Inr \<lparr>prgmName = ''o'',
            args = [Option ''Compile but do not assemble'' CHR ''S'' '''' (T_bool False),
                    Option ''Set the output file'' CHR ''o'' ''output'' (T_other ''S'')],
            shortOptPrefix = '''', longOptPrefix = '''', parseOptions = True,
            UnixParser_shortOptPrefix = ''-'', UnixParser_longOptPrefix = ''--''\<rparr>)"
  by (simp add: parse_def parse_loop.simps loop_body_def ctor_defs match_defs unix_defs)

text \<open>
  C9, amended. For every switch: \<^verbatim>\<open>parseArg\<close> never throws; on a window whose first token
  matches it sets the value to true and returns 1, on any other window it returns 0 and
  leaves the value. For a switch registered at index \<open>k\<close> of a parser whose \<^verbatim>\<open>metaparser\<close>
  writes neither to the descriptors nor to the prefixes:
  \<^item> if no token of the input matches the switch and \<^verbatim>\<open>parse\<close> returns, the switch has its
    initial value;
  \<^item> if the loop stands at a token that matches the switch, that \<^verbatim>\<open>metaparser\<close> declines
    (leaving the parser as it is), with the switch eligible and every descriptor
    registered before it skipped or returning 0, then this pass sets the switch to true
    and advances by exactly one token, and the switch is true when \<^verbatim>\<open>parse\<close> returns.
\<close>

theorem switch_option:
  "parseArg parser static_cast (Option h s l (T_bool b)) flag rest
      = (if doesStrMatchOption parser s l flag
         then Returned 1 (Option h s l (T_bool True))
         else Returned 0 (Option h s l (T_bool b)))
   \<and> ((\<forall>p t. args (snd (metaparser p t)) = args p
              \<and> shortOptPrefix (snd (metaparser p t)) = shortOptPrefix p
              \<and> longOptPrefix (snd (metaparser p t)) = longOptPrefix p)
        \<and> k < length (args parser) \<and> args parser ! k = Option h s l (T_bool b)
       \<longrightarrow>
        ((\<forall>t\<in>set argv. \<not> doesStrMatchOption parser s l t)
           \<and> parse metaparser shouldTest static_cast parser argv = Some (Inr parser')
          \<longrightarrow> args parser' ! k = Option h s l (T_bool b))
        \<and> (i < length argv2 \<and> metaparser parser (argv2 ! i) = (False, parser)
           \<and> doesStrMatchOption parser s l (argv2 ! i) \<and> shouldTest parser (args parser ! k)
           \<and> (\<forall>j<k. \<not> shouldTest parser (args parser ! j)
                 \<or> parseArg parser static_cast (args parser ! j) (argv2 ! i) (drop (Suc i) argv2)
                     = Returned 0 (args parser ! j))
          \<longrightarrow> loop_body metaparser shouldTest static_cast parser argv2 i
                = Inr (parser\<lparr>args := (args parser)[k := Option h s l (T_bool True)]\<rparr>, i + 1)
              \<and> (parse_loop metaparser shouldTest static_cast parser argv2 i = Some (Inr parser2)
                  \<longrightarrow> args parser2 ! k = Option h s l (T_bool True))))"
proof (intro conjI impI)
  show "parseArg parser static_cast (Option h s l (T_bool b)) flag rest
      = (if doesStrMatchOption parser s l flag
         then Returned 1 (Option h s l (T_bool True))
         else Returned 0 (Option h s l (T_bool b)))"
    by simp
next
  let ?p = "parser\<lparr>prgmName := argv ! 0\<rparr>"
  assume a: "(\<forall>p t. args (snd (metaparser p t)) = args p
              \<and> shortOptPrefix (snd (metaparser p t)) = shortOptPrefix p
              \<and> longOptPrefix (snd (metaparser p t)) = longOptPrefix p)
        \<and> k < length (args parser) \<and> args parser ! k = Option h s l (T_bool b)"
    and b: "(\<forall>t\<in>set argv. \<not> doesStrMatchOption parser s l t)
           \<and> parse metaparser shouldTest static_cast parser argv = Some (Inr parser')"
  from a have frame: "\<And>p t. args (snd (metaparser p t)) = args p
              \<and> shortOptPrefix (snd (metaparser p t)) = shortOptPrefix p
              \<and> longOptPrefix (snd (metaparser p t)) = longOptPrefix p" by blast
  from b have run: "parse_loop metaparser shouldTest static_cast ?p argv 0 = Some (Inr parser')"
    by (simp add: parse_def)
  from a have k: "k < length (args ?p)" and d: "args ?p ! k = Option h s l (T_bool b)"
    by simp_all
  from b have nm: "\<forall>t\<in>set argv. \<not> doesStrMatchOption ?p s l t"
    by (simp add: doesStrMatchOption_def)
  from parse_loop_keeps_unmatched[of metaparser, OF frame run k d nm]
  show "args parser' ! k = Option h s l (T_bool b)" .
next
  assume a: "(\<forall>p t. args (snd (metaparser p t)) = args p
              \<and> shortOptPrefix (snd (metaparser p t)) = shortOptPrefix p
              \<and> longOptPrefix (snd (metaparser p t)) = longOptPrefix p)
        \<and> k < length (args parser) \<and> args parser ! k = Option h s l (T_bool b)"
    and c: "i < length argv2 \<and> metaparser parser (argv2 ! i) = (False, parser)
           \<and> doesStrMatchOption parser s l (argv2 ! i) \<and> shouldTest parser (args parser ! k)
           \<and> (\<forall>j<k. \<not> shouldTest parser (args parser ! j)
                 \<or> parseArg parser static_cast (args parser ! j) (argv2 ! i) (drop (Suc i) argv2)
                     = Returned 0 (args parser ! j))"
  from a have frame: "\<And>p t. args (snd (metaparser p t)) = args p
              \<and> shortOptPrefix (snd (metaparser p t)) = shortOptPrefix p
              \<and> longOptPrefix (snd (metaparser p t)) = longOptPrefix p" by blast
  from a have k: "k < length (args parser)" and d: "args parser ! k = Option h s l (T_bool b)"
    by simp_all
  from c d
  have pa: "parseArg parser static_cast (args parser ! k) (argv2 ! i) (drop (Suc i) argv2)
      = Returned 1 (Option h s l (T_bool True))" by simp
  let ?q = "parser\<lparr>args := (args parser)[k := Option h s l (T_bool True)]\<rparr>"
  have body: "loop_body metaparser shouldTest static_cast parser argv2 i = Inr (?q, i + 1)"
    using loop_body_first_match[of metaparser parser argv2 i k shouldTest static_cast 1
        "Option h s l (T_bool True)"] c k pa by simp
  then show "loop_body metaparser shouldTest static_cast parser argv2 i = Inr (?q, i + 1)" .
  assume run: "parse_loop metaparser shouldTest static_cast parser argv2 i = Some (Inr parser2)"
  from c body have "parse_loop metaparser shouldTest static_cast parser argv2 i
      = parse_loop metaparser shouldTest static_cast ?q argv2 (i + 1)"
    by (subst parse_loop.simps) simp
  with run have run': "parse_loop metaparser shouldTest static_cast ?q argv2 (i + 1)
      = Some (Inr parser2)" by simp
  from k have kq: "k < length (args ?q)" and dq: "args ?q ! k = Option h s l (T_bool True)"
    by simp_all
  from parse_loop_keeps_true[of metaparser, OF frame run' kq dq]
  show "args parser2 ! k = Option h s l (T_bool True)" .
qed

text \<open>
  The switch \<open>S\<close> of the same parser: the input \<open>o\<close>, \<open>x\<close> holds no matching token and
  leaves it false; on the input \<open>S\<close>, \<open>--\<close> the pass at index 0 sets it, and it is true
  when the loop returns.
\<close>

theorem switch_option_witness:
  "\<not> doesStrMatchOption (SwitchScalarParser_ctor False) CHR ''S'' '''' ''o''
   \<and> \<not> doesStrMatchOption (SwitchScalarParser_ctor False) CHR ''S'' '''' ''x''
   \<and> parse UnixParser_metaparser UnixParser_shouldTest (\<lambda>s. s)
        (SwitchScalarParser_ctor False) [''o'', ''x'']
      = Some (Inr \<lparr>prgmName = ''o'',
            args = [Option ''Compile but do not assemble'' CHR ''S'' '''' (T_bool False),
                    Option ''Set the output file'' CHR ''o'' ''output'' (T_other ''x'')],
            shortOptPrefix = '''', longOptPrefix = '''', parseOptions = True,
            UnixParser_shortOptPrefix = ''-'', UnixParser_longOptPrefix = ''--''\<rparr>)
   \<and> doesStrMatchOption (SwitchScalarParser_ctor False) CHR ''S'' '''' ([''S'', ''--''] ! 0)
   \<and> loop_body UnixParser_metaparser UnixParser_shouldTest (\<lambda>s. s)
        (SwitchScalarParser_ctor False) [''S'', ''--''] 0
      = Inr (SwitchScalarParser_ctor True, 1)
   \<and> parse_loop UnixParser_metaparser UnixParser_shouldTest (\<lambda>s. s)
        (SwitchScalarParser_ctor False) [''S'', ''--''] 0
      = Some (Inr ((SwitchScalarParser_ctor True)\<lparr>parseOptions := False\<rparr>))
   \<and> args ((SwitchScalarParser_ctor True)\<lparr>parseOptions := False\<rparr>) ! 0
      = Option ''Compile but do not assemble'' CHR ''S'' '''' (T_bool True)"
  using switch_option
    [where parser = "SwitchScalarParser_ctor False" and static_cast = "\<lambda>s. s"
       and h = "''Compile but do not assemble''" and s = "CHR ''S''" and l = "''''"
       and b = False and flag = "''S''" and rest = "[]"
       and metaparser = UnixParser_metaparser and k = 0 and argv = "[''o'', ''x'']"
       and shouldTest = UnixParser_shouldTest
       and parser' = "\<lparr>prgmName = ''o'',
            args = [Option ''Compile but do not assemble'' CHR ''S'' '''' (T_bool False),
                    Option ''Set the output file'' CHR ''o'' ''output'' (T_other ''x'')],
            shortOptPrefix = '''', longOptPrefix = '''', parseOptions = True,
            UnixParser_shortOptPrefix = ''-'', UnixParser_longOptPrefix = ''--''\<rparr>"
       and i = 0 and ?argv2.0 = "[''S'', ''--'']"
       and ?parser2.0 = "(SwitchScalarParser_ctor True)\<lparr>parseOptions := False\<rparr>"]
  by (simp add: parse_def parse_loop.simps loop_body_def ctor_defs match_defs unix_defs)

section \<open>The program name\<close>

text \<open>
  C10. \<^verbatim>\<open>parse\<close> stores \<^verbatim>\<open>argv[0]\<close> as the program name and then starts the loop at index
  0: the first pass offers \<^verbatim>\<open>argv[0]\<close> itself to \<^verbatim>\<open>metaparser\<close> and, when that declines, to
  the descriptors, with the tokens after it as the rest of the window, like any other
  token. The loop then goes on at index 1 or at the count a descriptor returned.
\<close>

theorem parse_starts_at_program_name:
  "parse metaparser shouldTest static_cast parser (argv0 # rest) =
     (case metaparser (parser\<lparr>prgmName := argv0\<rparr>) argv0 of
        (True, parser') \<Rightarrow> parse_loop metaparser shouldTest static_cast parser' (argv0 # rest) 1
      | (False, parser') \<Rightarrow>
          (case for_args (shouldTest parser')
                  (\<lambda>arg. parseArg parser' static_cast arg argv0 rest) (args parser') of
             Inl e \<Rightarrow> Some (Inl e)
           | Inr (argsConsumed, args') \<Rightarrow>
               parse_loop metaparser shouldTest static_cast (parser'\<lparr>args := args'\<rparr>)
                 (argv0 # rest) argsConsumed))"
  unfolding parse_def
  by (subst parse_loop.simps) (simp add: loop_body_def split: prod.splits bool.splits sum.splits)

text \<open>
  Two runs in which the program name is taken as an argument: started under the name \<open>S\<close>
  the parser sets its switch \<open>S\<close>; started under the name \<open>--\<close> it clears \<^verbatim>\<open>parseOptions\<close>.
\<close>

lemma program_name_is_parsed:
  "parse UnixParser_metaparser UnixParser_shouldTest (\<lambda>s. s)
      (SwitchScalarParser_ctor False) [''S''] =
    Some (Inr ((SwitchScalarParser_ctor True)\<lparr>prgmName := ''S''\<rparr>))
   \<and> parse UnixParser_metaparser UnixParser_shouldTest (\<lambda>s. s)
      (SwitchScalarParser_ctor False) [''--''] =
    Some (Inr ((SwitchScalarParser_ctor False)\<lparr>prgmName := ''--'', parseOptions := False\<rparr>))"
  by (simp add: parse_def parse_loop.simps loop_body_def ctor_defs match_defs unix_defs)

end
